theory Spec2Isabelle
  imports Main "HOL-Library.AList"
begin

section \<open>Project-specific settings of the Blender Cloud add-on\<close>

text \<open>
  The development embeds \<^verbatim>\<open>blender_cloud/project_specific.py\<close>: the module-level flag
  \<^verbatim>\<open>project_settings_loading\<close>, the context manager \<^verbatim>\<open>mark_as_loading\<close>, the project-switch
  handler \<^verbatim>\<open>handle_project_update\<close> and the callback \<^verbatim>\<open>store\<close>, together with the items
  callback \<^verbatim>\<open>available_managers\<close> of \<^verbatim>\<open>blender_cloud/flamenco/__init__.py\<close>, which decides
  what the enum property \<^verbatim>\<open>FlamencoManagerGroup.manager\<close> accepts.

  A Python dict is an association list in insertion order: \<^verbatim>\<open>d.get(k)\<close> is
  \<^verbatim>\<open>map_of d k\<close>, \<^verbatim>\<open>d[k] = v\<close> is \<^verbatim>\<open>AList.update k v d\<close> (the value of an existing key is
  replaced in place, a new key is appended), \<^verbatim>\<open>{}\<close> is \<^verbatim>\<open>[]\<close>.

  The preferences object is the single mutable object both functions work on. It is a
  record of exactly the attributes \<^verbatim>\<open>project_specific.py\<close> reads and writes, under the
  names it uses for them (\<^verbatim>\<open>blender.py\<close> as it is at hand still declares the project group
  and the local path as \<^verbatim>\<open>attract_project\<close> and \<^verbatim>\<open>attract_project_local_path\<close>); every
  function takes the state and returns the new one. An exception that leaves a function
  is returned next to the state the function had reached, since Python does not undo the
  assignments made before a raise.
\<close>

subsection \<open>Python values and exceptions\<close>

text \<open>
  The value of the manager selection, and of the saved key \<^verbatim>\<open>'flamenco_manager_id'\<close>:
  Python's \<^verbatim>\<open>None\<close> or a \<^verbatim>\<open>str\<close>. The test \<^verbatim>\<open>if flamenco_manager_id:\<close> is Python
  truthiness: \<^verbatim>\<open>None\<close> and the empty string are false.
\<close>

datatype pyid = PyNone | PyStr string

fun truthy :: "pyid \<Rightarrow> bool" where
  "truthy PyNone = False"
| "truthy (PyStr s) = (s \<noteq> [])"

datatype exn = TypeError | AttributeError

subsection \<open>The persisted mapping\<close>

text \<open>
  \<^verbatim>\<open>prefs['project_settings']\<close> maps a project id to that project's entry. An entry is a
  dict; each of its keys may be absent. The per-manager settings are written by
  \<^verbatim>\<open>store\<close> as one dict with three keys. A saved manager is a dict
  \<^verbatim>\<open>{'_id': ..., 'name': ...}\<close>, here the pair of the two values.
  \<^verbatim>\<open>flamenco_job_output_strip_components\<close> is an \<^verbatim>\<open>IntProperty(min=0)\<close>: a natural number.
\<close>

type_synonym ('k, 'v) dict = "('k \<times> 'v) list"

type_synonym manager_info = "string \<times> string"

record manager_settings =
  file_path :: string
  output_path :: string
  output_strip_components :: nat

record project_entry =
  simple_props :: "(string, string) dict"
  flamenco_manager_id :: "pyid option"
  flamenco_available_managers :: "manager_info list option"
  flamenco_managers_settings :: "(pyid, manager_settings) dict option"

text \<open>The empty dict \<^verbatim>\<open>{}\<close>, the default of both \<^verbatim>\<open>.get(..., {})\<close> calls.\<close>

definition empty_entry :: project_entry where
  "empty_entry = \<lparr>simple_props = [], flamenco_manager_id = None,
     flamenco_available_managers = None, flamenco_managers_settings = None\<rparr>"

text \<open>\<^verbatim>\<open>ps.get('flamenco_managers_settings', {})\<close>.\<close>

definition managers_settings_of :: "project_entry \<Rightarrow> (pyid, manager_settings) dict" where
  "managers_settings_of ps =
     (case flamenco_managers_settings ps of None \<Rightarrow> [] | Some ms \<Rightarrow> ms)"

text \<open>\<^verbatim>\<open>ps.get('flamenco_available_managers', [])\<close>.\<close>

definition saved_available_managers :: "project_entry \<Rightarrow> manager_info list" where
  "saved_available_managers ps =
     (case flamenco_available_managers ps of None \<Rightarrow> [] | Some l \<Rightarrow> l)"

text \<open>\<^verbatim>\<open>'%s' % v\<close>, as the log messages format a manager id.\<close>

fun str_of :: "pyid \<Rightarrow> string" where
  "str_of PyNone = ''None''"
| "str_of (PyStr s) = s"

subsection \<open>The state\<close>

datatype feature = Attract | Flamenco

text \<open>
  The calls that leave the module (\<^verbatim>\<open>project_extensions.cache_clear()\<close>,
  \<^verbatim>\<open>attract.deactivate()\<close>, \<^verbatim>\<open>project_extensions(project_id)\<close>, \<^verbatim>\<open>log.warning\<close>, ...) and the
  assignments \<^verbatim>\<open>handle_project_update\<close> makes to live preference attributes are recorded
  in a trace, each with the value \<^verbatim>\<open>project_settings_loading\<close> had at that moment.
\<close>

datatype event =
    CacheClear
  | Deactivate feature
  | ProjectExtensions string
  | Activate feature
  | LogWarning string
  | PrefWrite string

record state =
  project :: string
  attrs :: "(string, string) dict"
  manager_item :: "nat option"
  available_managers :: "manager_info list"
  flamenco_job_file_path :: string
  flamenco_job_output_path :: string
  flamenco_job_output_strip_components :: nat
  project_settings :: "(string, project_entry) dict option"
  project_settings_loading :: bool
  extensions_cache :: "(string, string list) dict"
  events :: "(event \<times> bool) list"

text \<open>
  \<^verbatim>\<open>project\<close> is \<^verbatim>\<open>prefs.project.project\<close>; \<^verbatim>\<open>attrs\<close> holds the simple properties that are
  attributes of the preferences object (\<^verbatim>\<open>hasattr\<close> is membership among its keys,
  \<^verbatim>\<open>getattr\<close> of a missing one raises \<^verbatim>\<open>AttributeError\<close>); \<^verbatim>\<open>manager_item\<close> and
  \<^verbatim>\<open>available_managers\<close> are what \<^verbatim>\<open>prefs.flamenco_manager\<close> stores for its enum
  \<^verbatim>\<open>manager\<close> and for its list of managers;
  \<^verbatim>\<open>project_settings\<close> is \<^verbatim>\<open>None\<close> while the preferences have no such key.

  What the host application decides and the source does not: whether its enum property
  accepts the assignment of \<^verbatim>\<open>None\<close> (line 95 of \<^verbatim>\<open>project_specific.py\<close> makes one), and
  the uncached body of \<^verbatim>\<open>project_extensions\<close>.
\<close>

record host =
  enum_accepts_none :: bool
  fetch_extensions :: "string \<Rightarrow> string list"

definition PROJECT_SPECIFIC_SIMPLE_PROPS :: "string list" where
  "PROJECT_SPECIFIC_SIMPLE_PROPS = [''cloud_project_local_path'']"

text \<open>\<^verbatim>\<open>prefs.get('project_settings', {})\<close> and, on it, \<^verbatim>\<open>.get(project_id, {})\<close>.\<close>

definition all_settings_of :: "state \<Rightarrow> (string, project_entry) dict" where
  "all_settings_of s = (case project_settings s of None \<Rightarrow> [] | Some m \<Rightarrow> m)"

definition project_entry_of :: "state \<Rightarrow> string \<Rightarrow> project_entry" where
  "project_entry_of s project_id =
     (case map_of (all_settings_of s) project_id of None \<Rightarrow> empty_entry | Some e \<Rightarrow> e)"

definition emit :: "event \<Rightarrow> state \<Rightarrow> state" where
  "emit e s = s\<lparr>events := events s @ [(e, project_settings_loading s)]\<rparr>"

subsection \<open>\<^verbatim>\<open>mark_as_loading\<close>\<close>

text \<open>
  The context manager sets the flag, runs the body of the \<^verbatim>\<open>with\<close> statement, and clears
  the flag in its \<^verbatim>\<open>finally\<close> clause, whether or not the body raised.
\<close>

definition mark_as_loading :: "(state \<Rightarrow> exn option \<times> state) \<Rightarrow> state \<Rightarrow> exn option \<times> state" where
  "mark_as_loading body s =
     (case body (s\<lparr>project_settings_loading := True\<rparr>) of
        (e, s') \<Rightarrow> (e, s'\<lparr>project_settings_loading := False\<rparr>))"

subsection \<open>Collaborators of the handler\<close>

text \<open>
  Modelled from the spec: \<^verbatim>\<open>project_extensions\<close> of \<^verbatim>\<open>blender.py\<close> is missing from the
  sources at hand. The spec describes it as a memoized query
  \<^verbatim>\<open>project_extensions(project_id) -> set_of_feature_names\<close> whose cache
  \<^verbatim>\<open>cache_clear()\<close> empties.
\<close>

definition cache_clear :: "state \<Rightarrow> state" where
  "cache_clear s = emit CacheClear (s\<lparr>extensions_cache := []\<rparr>)"

definition project_extensions :: "host \<Rightarrow> string \<Rightarrow> state \<Rightarrow> string list \<times> state" where
  "project_extensions h pid s =
     (let s1 = emit (ProjectExtensions pid) s in
      case map_of (extensions_cache s1) pid of
        Some r \<Rightarrow> (r, s1)
      | None \<Rightarrow> (let r = fetch_extensions h pid
                 in (r, s1\<lparr>extensions_cache := AList.update pid r (extensions_cache s1)\<rparr>)))"

text \<open>
  Modelled from the spec: \<^verbatim>\<open>activate()\<close> and \<^verbatim>\<open>deactivate()\<close> of the \<^verbatim>\<open>attract\<close> and
  \<^verbatim>\<open>flamenco\<close> packages are missing from the sources at hand. The spec describes two
  feature-module objects each exposing \<^verbatim>\<open>activate()\<close> / \<^verbatim>\<open>deactivate()\<close>; they act on the
  host's registry, not on the preferences, and are recorded as calls.
\<close>

definition deactivate :: "feature \<Rightarrow> state \<Rightarrow> state" where
  "deactivate f s = emit (Deactivate f) s"

definition activate :: "feature \<Rightarrow> state \<Rightarrow> state" where
  "activate f s = emit (Activate f) s"

subsection \<open>The manager enum of \<^verbatim>\<open>flamenco/__init__.py\<close>\<close>

text \<open>
  \<^verbatim>\<open>available_managers(self, context)\<close> computes the items of the enum from the list
  stored in the preferences: one placeholder item with the empty identifier when the
  list is empty, else one item \<^verbatim>\<open>(p['_id'], p['name'], '')\<close> per manager. Its decorator
  \<^verbatim>\<open>pyside_cache\<close> comes from \<^verbatim>\<open>utils\<close> and is taken to hand the result through.
\<close>

definition available_managers_items :: "manager_info list \<Rightarrow> (string \<times> string \<times> string) list" where
  "available_managers_items mngrs =
     (if mngrs = [] then [('''', ''No managers available in your Blender Cloud'', '''')]
      else map (\<lambda>p. (fst p, snd p, '''')) mngrs)"

text \<open>
  \<^verbatim>\<open>manager\<close> is an \<^verbatim>\<open>EnumProperty\<close> whose items are computed by that callback each time
  the property is read or assigned. The host stores the number of the selected item, not
  its identifier: reading looks the stored number up among the items computed from the
  list the preferences hold at that moment and gives the empty string when there is no
  such item. Replacing the list therefore changes what \<^verbatim>\<open>manager\<close> reads, without any
  assignment to it.
\<close>

definition enum_read :: "(string \<times> string \<times> string) list \<Rightarrow> nat option \<Rightarrow> pyid" where
  "enum_read items stored =
     (case stored of
        None \<Rightarrow> PyNone
      | Some n \<Rightarrow> if n < length items then PyStr (fst (items ! n)) else PyStr [])"

text \<open>\<^verbatim>\<open>prefs.flamenco_manager.manager\<close>, read.\<close>

definition manager :: "state \<Rightarrow> pyid" where
  "manager s = enum_read (available_managers_items (available_managers s)) (manager_item s)"

text \<open>The number of the first item with a given identifier.\<close>

fun first_index :: "string \<Rightarrow> string list \<Rightarrow> nat option" where
  "first_index i [] = None"
| "first_index i (x # xs) = (if x = i then Some 0 else map_option Suc (first_index i xs))"

text \<open>
  \<^verbatim>\<open>prefs.flamenco_manager.manager = v\<close>. The enum takes the non-empty identifier of one
  of its items and stores that item's number; for any other string, the empty identifier
  of the placeholder included, it raises \<^verbatim>\<open>TypeError\<close>, which is the exception
  \<^verbatim>\<open>handle_project_update\<close> catches. The items are computed from the list the preferences
  hold at the time of the assignment. Where the host accepts \<^verbatim>\<open>None\<close>, no item is stored
  and the property reads \<^verbatim>\<open>None\<close>.
\<close>

definition set_manager :: "host \<Rightarrow> pyid \<Rightarrow> state \<Rightarrow> exn + state" where
  "set_manager h v s =
     (case v of
        PyNone \<Rightarrow>
          if enum_accepts_none h
          then Inr (emit (PrefWrite ''flamenco_manager.manager'') (s\<lparr>manager_item := None\<rparr>))
          else Inl TypeError
      | PyStr i \<Rightarrow>
          (case (if i = [] then None
                 else first_index i (map fst (available_managers_items (available_managers s)))) of
             None \<Rightarrow> Inl TypeError
           | Some n \<Rightarrow>
               Inr (emit (PrefWrite ''flamenco_manager.manager'') (s\<lparr>manager_item := Some n\<rparr>))))"

definition set_available_managers :: "manager_info list \<Rightarrow> state \<Rightarrow> state" where
  "set_available_managers new_managers s =
     emit (PrefWrite ''flamenco_manager.available_managers'') (s\<lparr>available_managers := new_managers\<rparr>)"

subsection \<open>\<^verbatim>\<open>handle_project_update\<close>\<close>

text \<open>Lines 69-71: the loop over the simple properties.\<close>

fun restore_simple_props :: "string list \<Rightarrow> project_entry \<Rightarrow> state \<Rightarrow> state" where
  "restore_simple_props [] ps s = s"
| "restore_simple_props (name # names) ps s =
     restore_simple_props names ps
       (case map_of (simple_props ps) name of
          None \<Rightarrow> s
        | Some v \<Rightarrow>
            if name \<in> set (map fst (attrs s))
            then emit (PrefWrite name) (s\<lparr>attrs := AList.update name v (attrs s)\<rparr>)
            else s)"

text \<open>
  Lines 84-92: \<^verbatim>\<open>ps['flamenco_managers_settings'][flamenco_manager_id]\<close> raises \<^verbatim>\<open>KeyError\<close>
  when either key is missing, and the handler passes; otherwise the three job fields are
  assigned.
\<close>

definition restore_manager_settings :: "project_entry \<Rightarrow> pyid \<Rightarrow> state \<Rightarrow> state" where
  "restore_manager_settings ps manager_id s =
     (case flamenco_managers_settings ps of
        None \<Rightarrow> s
      | Some ms \<Rightarrow>
          (case map_of ms manager_id of
             None \<Rightarrow> s
           | Some pppm \<Rightarrow>
               emit (PrefWrite ''flamenco_job_output_strip_components'')
                 ((emit (PrefWrite ''flamenco_job_output_path'')
                    ((emit (PrefWrite ''flamenco_job_file_path'')
                       (s\<lparr>flamenco_job_file_path := file_path pppm\<rparr>))
                     \<lparr>flamenco_job_output_path := output_path pppm\<rparr>))
                  \<lparr>flamenco_job_output_strip_components := output_strip_components pppm\<rparr>)))"

text \<open>Lines 55-95: the settings of the current project are loaded.\<close>

definition load_settings :: "host \<Rightarrow> state \<Rightarrow> exn option \<times> state" where
  "load_settings h s =
     (let ps = project_entry_of s (project s)
      in
      if ps = empty_entry then (None, set_available_managers [] s)
      else
        let s1 = restore_simple_props PROJECT_SPECIFIC_SIMPLE_PROPS ps s;
            s2 = set_available_managers (saved_available_managers ps) s1;
            manager_id =
                   (case flamenco_manager_id ps of None \<Rightarrow> PyNone | Some v \<Rightarrow> v)
        in
        if truthy manager_id then
          (case set_manager h manager_id s2 of
             Inl e \<Rightarrow>
               (case e of
                  TypeError \<Rightarrow>
                    (None, emit (LogWarning (''manager '' @ str_of manager_id @
                                              '' for this project could not be found'')) s2)
                | AttributeError \<Rightarrow> (Some e, s2))
           | Inr s3 \<Rightarrow> (None, restore_manager_settings ps manager_id s3))
        else
          (case set_manager h PyNone s2 of
             Inl e \<Rightarrow> (Some e, s2)
           | Inr s3 \<Rightarrow> (None, s3)))"

text \<open>Lines 41-52: the extensions of the current project are switched.\<close>

definition switch_extensions :: "host \<Rightarrow> state \<Rightarrow> state" where
  "switch_extensions h s =
     (let project_id = project s;
          s1 = cache_clear s;
          s2 = deactivate Attract s1;
          s3 = deactivate Flamenco s2;
          (enabled_for, s4) = project_extensions h project_id s3;
          s5 = (if ''attract'' \<in> set enabled_for then activate Attract s4 else s4);
          s6 = (if ''flamenco'' \<in> set enabled_for then activate Flamenco s5 else s5)
      in s6)"

definition handle_project_update :: "host \<Rightarrow> state \<Rightarrow> exn option \<times> state" where
  "handle_project_update h s =
     mark_as_loading (\<lambda>s0. load_settings h (switch_extensions h s0)) s"

subsection \<open>\<^verbatim>\<open>store\<close>\<close>

text \<open>Lines 117-118: \<^verbatim>\<open>ps[name] = getattr(prefs, name)\<close> for each simple property.\<close>

fun store_simple_props :: "string list \<Rightarrow> state \<Rightarrow> project_entry \<Rightarrow> exn + project_entry" where
  "store_simple_props [] s ps = Inr ps"
| "store_simple_props (name # names) s ps =
     (case map_of (attrs s) name of
        None \<Rightarrow> Inl AttributeError
      | Some v \<Rightarrow>
          store_simple_props names s (ps\<lparr>simple_props := AList.update name v (simple_props ps)\<rparr>))"

definition store :: "state \<Rightarrow> exn option \<times> state" where
  "store s =
     (if project_settings_loading s then (None, s)
      else
        let project_id = project s;
            all_settings = all_settings_of s;
            ps = project_entry_of s project_id
        in
        case store_simple_props PROJECT_SPECIFIC_SIMPLE_PROPS s ps of
          Inl e \<Rightarrow> (Some e, s)
        | Inr ps1 \<Rightarrow>
            (let ps2 = ps1\<lparr>flamenco_manager_id := Some (manager s),
                          flamenco_available_managers := Some (available_managers s)\<rparr>;
                 pppm = managers_settings_of ps2;
                 pppm' = AList.update (manager s)
                           \<lparr>file_path = flamenco_job_file_path s,
                            output_path = flamenco_job_output_path s,
                            output_strip_components = flamenco_job_output_strip_components s\<rparr>
                           pppm;
                 ps3 = ps2\<lparr>flamenco_managers_settings := Some pppm'\<rparr>
             in (None, s\<lparr>project_settings := Some (AList.update project_id ps3 all_settings)\<rparr>)))"

subsection \<open>Reading the trace\<close>

text \<open>
  The activations that follow from a set of enabled features: \<^verbatim>\<open>attract\<close> first, then
  \<^verbatim>\<open>flamenco\<close>, each only when it is named. The events of the restoring part of the
  handler are the assignments to preferences and the warning.
\<close>

definition activations :: "string list \<Rightarrow> event list" where
  "activations enabled_for =
     (if ''attract'' \<in> set enabled_for then [Activate Attract] else []) @
     (if ''flamenco'' \<in> set enabled_for then [Activate Flamenco] else [])"

fun is_restore_event :: "event \<Rightarrow> bool" where
  "is_restore_event (PrefWrite _) = True"
| "is_restore_event (LogWarning _) = True"
| "is_restore_event _ = False"

subsection \<open>Concrete states\<close>

text \<open>
  A manager is selected when the enum reads as the non-empty identifier of one of the
  available managers (its placeholder item has the empty identifier).
\<close>

definition manager_selected :: "state \<Rightarrow> bool" where
  "manager_selected s =
     (case manager s of
        PyNone \<Rightarrow> False
      | PyStr i \<Rightarrow> i \<noteq> [] \<and> i \<in> set (map fst (available_managers s)))"

text \<open>
  Preferences with the defaults \<^verbatim>\<open>blender.py\<close> declares for the job paths, project
  \<^verbatim>\<open>projA\<close> current, no manager fetched or selected, nothing persisted.
\<close>

definition fresh_state :: state where
  "fresh_state =
     \<lparr>project = ''projA'',
      attrs = [(''cloud_project_local_path'', ''//../'')],
      manager_item = Some 0,
      available_managers = [],
      flamenco_job_file_path = ''/render/_flamenco/storage'',
      flamenco_job_output_path = ''/render/_flamenco/output'',
      flamenco_job_output_strip_components = 0,
      project_settings = None,
      project_settings_loading = False,
      extensions_cache = [],
      events = []\<rparr>"

definition flamenco_host :: host where
  "flamenco_host = \<lparr>enum_accepts_none = False, fetch_extensions = (\<lambda>_. [''flamenco''])\<rparr>"

text \<open>
  The persisted state of the spec's example:
  \<^verbatim>\<open>{"projA": {"flamenco_manager_id": "m1", "flamenco_managers_settings":
     {"m1": {"file_path": "/a", "output_path": "/b", "output_strip_components": 2}}}}\<close>
\<close>

definition m1_settings :: manager_settings where
  "m1_settings = \<lparr>file_path = ''/a'', output_path = ''/b'', output_strip_components = 2\<rparr>"

definition spec_example_entry :: project_entry where
  "spec_example_entry =
     \<lparr>simple_props = [],
      flamenco_manager_id = Some (PyStr ''m1''),
      flamenco_available_managers = None,
      flamenco_managers_settings = Some [(PyStr ''m1'', m1_settings)]\<rparr>"

definition spec_example_state :: state where
  "spec_example_state =
     fresh_state\<lparr>project_settings := Some [(''projA'', spec_example_entry)]\<rparr>"

text \<open>
  A project with two fetched managers: \<^verbatim>\<open>m1\<close> was selected when \<^verbatim>\<open>projA\<close> was last
  stored, with the job paths of the spec's example; the live selection is \<^verbatim>\<open>m2\<close>.
  A second project, \<^verbatim>\<open>projB\<close>, has an entry of its own.
\<close>

definition two_managers :: "manager_info list" where
  "two_managers = [(''m1'', ''Manager 1''), (''m2'', ''Manager 2'')]"

definition studio_entry :: project_entry where
  "studio_entry =
     \<lparr>simple_props = [(''cloud_project_local_path'', ''/projects/a'')],
      flamenco_manager_id = Some (PyStr ''m1''),
      flamenco_available_managers = Some two_managers,
      flamenco_managers_settings = Some [(PyStr ''m1'', m1_settings)]\<rparr>"

definition studio_state :: state where
  "studio_state =
     fresh_state\<lparr>manager_item := Some 1, available_managers := two_managers,
       project_settings := Some [(''projA'', studio_entry), (''projB'', spec_example_entry)]\<rparr>"

text \<open>The same project, last stored with \<^verbatim>\<open>m2\<close> selected, for which nothing was saved.\<close>

definition unsaved_manager_state :: state where
  "unsaved_manager_state =
     fresh_state\<lparr>project_settings :=
       Some [(''projA'', studio_entry\<lparr>flamenco_manager_id := Some (PyStr ''m2'')\<rparr>)]\<rparr>"

text \<open>
  Only \<^verbatim>\<open>m1\<close> is fetched and it is selected, the local path is the default; the entry
  of \<^verbatim>\<open>projA\<close> was stored with both managers available and names a manager \<^verbatim>\<open>gone\<close>
  that is not among them.
\<close>

definition stale_state :: state where
  "stale_state =
     fresh_state\<lparr>manager_item := Some 0, available_managers := [(''m1'', ''Manager 1'')],
       project_settings :=
         Some [(''projA'', studio_entry\<lparr>flamenco_manager_id := Some (PyStr ''gone'')\<rparr>)]\<rparr>"

text \<open>The studio preferences after the switch to a project that was never stored.\<close>

definition unlisted_project_state :: state where
  "unlisted_project_state = studio_state\<lparr>project := ''projC''\<rparr>"

text \<open>
  The live preferences after \<^verbatim>\<open>s\<close> were changed behind the back of \<^verbatim>\<open>store\<close>: another
  path, no managers, other job settings; the persisted mapping and the project are kept.
\<close>

definition scrambled :: "state \<Rightarrow> state" where
  "scrambled s =
     s\<lparr>attrs := [(''cloud_project_local_path'', ''/tmp'')],
       manager_item := Some 0,
       available_managers := [],
       flamenco_job_file_path := ''/elsewhere'',
       flamenco_job_output_path := ''/nowhere'',
       flamenco_job_output_strip_components := 7\<rparr>"

subsection \<open>What \<^verbatim>\<open>store\<close> writes\<close>

text \<open>
  The entry of the current project after lines 117-130, when the one simple property
  reads as \<^verbatim>\<open>v\<close>: the saved entry with four keys assigned.
\<close>

definition stored_entry :: "state \<Rightarrow> string \<Rightarrow> project_entry" where
  "stored_entry s v =
     (project_entry_of s (project s))
       \<lparr>simple_props :=
          AList.update ''cloud_project_local_path'' v (simple_props (project_entry_of s (project s))),
        flamenco_manager_id := Some (manager s),
        flamenco_available_managers := Some (available_managers s),
        flamenco_managers_settings :=
          Some (AList.update (manager s)
                  \<lparr>file_path = flamenco_job_file_path s,
                   output_path = flamenco_job_output_path s,
                   output_strip_components = flamenco_job_output_strip_components s\<rparr>
                  (managers_settings_of (project_entry_of s (project s))))\<rparr>"

section \<open>Properties\<close>

subsection \<open>Facts about \<^verbatim>\<open>store\<close>\<close>

lemma manager_simps [simp]:
  "manager (s\<lparr>attrs := a\<rparr>) = manager s"
  "manager (s\<lparr>events := e\<rparr>) = manager s"
  "manager (s\<lparr>project_settings := p\<rparr>) = manager s"
  "manager (s\<lparr>project_settings_loading := b\<rparr>) = manager s"
  "manager (s\<lparr>flamenco_job_file_path := f\<rparr>) = manager s"
  "manager (s\<lparr>flamenco_job_output_path := f\<rparr>) = manager s"
  "manager (s\<lparr>flamenco_job_output_strip_components := n\<rparr>) = manager s"
  by (simp_all add: manager_def)

lemma store_success:
  assumes "\<not> project_settings_loading s"
      and "map_of (attrs s) ''cloud_project_local_path'' = Some v"
  shows "store s =
     (None, s\<lparr>project_settings :=
                Some (AList.update (project s) (stored_entry s v) (all_settings_of s))\<rparr>)"
  using assms
  by (simp add: store_def PROJECT_SPECIFIC_SIMPLE_PROPS_def managers_settings_of_def Let_def
        stored_entry_def)

lemma store_failure:
  assumes "\<not> project_settings_loading s"
      and "map_of (attrs s) ''cloud_project_local_path'' = None"
  shows "store s = (Some AttributeError, s)"
  using assms by (simp add: store_def PROJECT_SPECIFIC_SIMPLE_PROPS_def)

lemma store_loading:
  assumes "project_settings_loading s"
  shows "store s = (None, s)"
  using assms by (simp add: store_def)

lemma store_cases:
  obtains (loading) "project_settings_loading s" "store s = (None, s)"
  | (raise) "\<not> project_settings_loading s" "store s = (Some AttributeError, s)"
  | (ok) v where "\<not> project_settings_loading s"
      "map_of (attrs s) ''cloud_project_local_path'' = Some v"
proof (cases "project_settings_loading s")
  case True
  then show ?thesis using loading store_loading by blast
next
  case False
  show ?thesis
  proof (cases "map_of (attrs s) ''cloud_project_local_path''")
    case None
    then show ?thesis using raise False store_failure by blast
  next
    case (Some v)
    then show ?thesis using ok False by blast
  qed
qed

lemma entry_after_store:
  "project_entry_of
     (s\<lparr>project_settings := Some (AList.update (project s) e (all_settings_of s))\<rparr>) (project s) = e"
  by (simp add: project_entry_of_def all_settings_of_def AList.update_conv')

lemma entry_with_id_nonempty:
  "flamenco_manager_id ps = Some v \<Longrightarrow> ps \<noteq> empty_entry"
  by (auto simp: empty_entry_def)

lemma stored_entry_nonempty: "stored_entry s v \<noteq> empty_entry"
  by (rule entry_with_id_nonempty[of _ "manager s"]) (simp add: stored_entry_def)

lemma stored_entry_again:
  "stored_entry
     (s\<lparr>project_settings := Some (AList.update (project s) (stored_entry s v) (all_settings_of s))\<rparr>) v
   = stored_entry s v"
  unfolding stored_entry_def[of "s\<lparr>project_settings := _\<rparr>"]
  by (simp add: entry_after_store[simplified]) (simp add: stored_entry_def managers_settings_of_def)

lemma project_entry_of_cong:
  "project_settings s = project_settings s' \<Longrightarrow> project_entry_of s p = project_entry_of s' p"
  by (simp add: project_entry_of_def all_settings_of_def)

subsection \<open>Facts about \<^verbatim>\<open>handle_project_update\<close>\<close>

lemma switch_extensions_eq:
  "switch_extensions h s =
     s\<lparr>extensions_cache := [(project s, fetch_extensions h (project s))],
       events := events s @ map (\<lambda>e. (e, project_settings_loading s))
         ([CacheClear, Deactivate Attract, Deactivate Flamenco, ProjectExtensions (project s)]
          @ activations (fetch_extensions h (project s)))\<rparr>"
  by (simp add: switch_extensions_def cache_clear_def deactivate_def activate_def
        project_extensions_def emit_def activations_def Let_def)

lemma switch_frame [simp]:
  "project (switch_extensions h s) = project s"
  "attrs (switch_extensions h s) = attrs s"
  "manager_item (switch_extensions h s) = manager_item s"
  "manager (switch_extensions h s) = manager s"
  "available_managers (switch_extensions h s) = available_managers s"
  "flamenco_job_file_path (switch_extensions h s) = flamenco_job_file_path s"
  "flamenco_job_output_path (switch_extensions h s) = flamenco_job_output_path s"
  "flamenco_job_output_strip_components (switch_extensions h s) =
     flamenco_job_output_strip_components s"
  "project_settings (switch_extensions h s) = project_settings s"
  "project_settings_loading (switch_extensions h s) = project_settings_loading s"
  by (simp_all add: switch_extensions_eq manager_def)

lemma entry_of_switch [simp]:
  "project_entry_of (switch_extensions h s) p = project_entry_of s p"
  by (simp add: project_entry_of_def all_settings_of_def)

lemma entry_of_loading [simp]:
  "project_entry_of (s\<lparr>project_settings_loading := b\<rparr>) p = project_entry_of s p"
  by (simp add: project_entry_of_def all_settings_of_def)

lemma restore_simple_props_frame:
  "project (restore_simple_props names ps s) = project s"
  "manager_item (restore_simple_props names ps s) = manager_item s"
  "available_managers (restore_simple_props names ps s) = available_managers s"
  "flamenco_job_file_path (restore_simple_props names ps s) = flamenco_job_file_path s"
  "flamenco_job_output_path (restore_simple_props names ps s) = flamenco_job_output_path s"
  "flamenco_job_output_strip_components (restore_simple_props names ps s) =
     flamenco_job_output_strip_components s"
  "project_settings (restore_simple_props names ps s) = project_settings s"
  "project_settings_loading (restore_simple_props names ps s) = project_settings_loading s"
  "extensions_cache (restore_simple_props names ps s) = extensions_cache s"
  by (induction names arbitrary: s; simp add: emit_def split: option.splits)+

lemma restore_simple_props_value:
  "map_of (attrs (restore_simple_props names ps s)) name =
     (if name \<in> set names \<and> map_of (simple_props ps) name \<noteq> None
         \<and> name \<in> set (map fst (attrs s))
      then map_of (simple_props ps) name else map_of (attrs s) name)"
proof (induction names arbitrary: s)
  case Nil
  show ?case by simp
next
  case (Cons n names)
  show ?case
    by (cases "map_of (simple_props ps) n")
       (auto simp: Cons.IH emit_def AList.update_conv' AList.dom_update weak_map_of_SomeI
             dest: map_of_SomeD)
qed

lemma restore_simple_props_events:
  "\<exists>rest. events (restore_simple_props names ps s) =
            events s @ map (\<lambda>e. (e, project_settings_loading s)) rest
        \<and> list_all is_restore_event rest"
proof (induction names arbitrary: s)
  case Nil
  show ?case by (rule exI[of _ "[]"]) simp
next
  case (Cons name names)
  let ?s' = "(case map_of (simple_props ps) name of
          None \<Rightarrow> s
        | Some v \<Rightarrow>
            if name \<in> set (map fst (attrs s))
            then emit (PrefWrite name) (s\<lparr>attrs := AList.update name v (attrs s)\<rparr>)
            else s)"
  obtain r1 where r1: "events ?s' = events s @ map (\<lambda>e. (e, project_settings_loading s)) r1"
     "list_all is_restore_event r1" "project_settings_loading ?s' = project_settings_loading s"
  proof (cases "map_of (simple_props ps) name")
    case None
    show ?thesis by (rule that[of "[]"]) (simp_all add: None)
  next
    case (Some v)
    show ?thesis
    proof (cases "name \<in> set (map fst (attrs s))")
      case True
      show ?thesis
        by (rule that[of "[PrefWrite name]"]) (use Some True in \<open>simp_all add: emit_def\<close>)
    next
      case False
      show ?thesis by (rule that[of "[]"]) (use Some False in \<open>simp_all\<close>)
    qed
  qed
  from Cons.IH[of ?s'] obtain r2 where r2:
    "events (restore_simple_props names ps ?s') =
       events ?s' @ map (\<lambda>e. (e, project_settings_loading ?s')) r2"
    "list_all is_restore_event r2" by blast
  show ?case
    by (rule exI[of _ "r1 @ r2"]) (use r1 r2 in simp)
qed

lemma restore_manager_settings_none:
  "map_of (managers_settings_of ps) k = None \<Longrightarrow> restore_manager_settings ps k s = s"
  by (simp add: restore_manager_settings_def managers_settings_of_def split: option.splits)

lemma restore_manager_settings_some:
  "map_of (managers_settings_of ps) k = Some pppm \<Longrightarrow>
   restore_manager_settings ps k s =
     s\<lparr>flamenco_job_file_path := file_path pppm,
       flamenco_job_output_path := output_path pppm,
       flamenco_job_output_strip_components := output_strip_components pppm,
       events := events s @ map (\<lambda>e. (e, project_settings_loading s))
          [PrefWrite ''flamenco_job_file_path'', PrefWrite ''flamenco_job_output_path'',
           PrefWrite ''flamenco_job_output_strip_components'']\<rparr>"
  by (auto simp add: restore_manager_settings_def managers_settings_of_def emit_def
        split: option.splits)

lemma handle_project_update_eq:
  "handle_project_update h s =
     (fst (load_settings h (switch_extensions h (s\<lparr>project_settings_loading := True\<rparr>))),
      (snd (load_settings h (switch_extensions h (s\<lparr>project_settings_loading := True\<rparr>))))
        \<lparr>project_settings_loading := False\<rparr>)"
  by (simp add: handle_project_update_def mark_as_loading_def split_beta)

lemma first_index_None: "first_index i xs = None \<longleftrightarrow> i \<notin> set xs"
  by (induction xs) auto

lemma first_index_Some: "first_index i xs = Some n \<Longrightarrow> n < length xs \<and> xs ! n = i"
  by (induction xs arbitrary: n) (auto split: if_splits)

lemma items_ids:
  "i \<noteq> [] \<Longrightarrow>
   i \<in> fst ` set (available_managers_items ms) \<longleftrightarrow> i \<in> fst ` set ms"
  by (cases "ms = []") (force simp: available_managers_items_def image_image)+

text \<open>An identifier that was accepted is what the enum reads afterwards.\<close>

lemma enum_read_first_index:
  assumes "i \<noteq> []" and "i \<in> set (map fst ms)"
  shows "\<exists>n. first_index i (map fst (available_managers_items ms)) = Some n
           \<and> enum_read (available_managers_items ms) (Some n) = PyStr i"
proof -
  let ?items = "available_managers_items ms"
  from assms have "i \<in> set (map fst ?items)" by (simp add: items_ids)
  then obtain n where n: "first_index i (map fst ?items) = Some n"
    using first_index_None[of i "map fst ?items"] by (cases "first_index i (map fst ?items)") auto
  from first_index_Some[OF n] have "n < length ?items" "fst (?items ! n) = i" by auto
  then show ?thesis using n by (simp add: enum_read_def)
qed

text \<open>Against the placeholder alone, the enum reads as nothing that is selected.\<close>

lemma enum_read_no_managers:
  "enum_read (available_managers_items []) stored = (case stored of None \<Rightarrow> PyNone | Some n \<Rightarrow> PyStr [])"
  by (auto simp: enum_read_def available_managers_items_def split: option.splits)

text \<open>What the enum reads is empty or the identifier of an available manager.\<close>

lemma enum_read_cases:
  "enum_read (available_managers_items ms) stored = PyNone
   \<or> enum_read (available_managers_items ms) stored = PyStr []
   \<or> (\<exists>j. enum_read (available_managers_items ms) stored = PyStr j \<and> j \<in> set (map fst ms))"
proof (cases stored)
  case None
  then show ?thesis by (simp add: enum_read_def)
next
  case (Some n)
  show ?thesis
  proof (cases "ms = []")
    case True
    then show ?thesis using Some by (simp add: enum_read_no_managers)
  next
    case False
    show ?thesis
    proof (cases "n < length ms")
      case True
      then have "fst (ms ! n) \<in> set (map fst ms)" by (simp add: image_iff) (metis nth_mem)
      then show ?thesis using Some False True
        by (simp add: enum_read_def available_managers_items_def)
    next
      case nl: False
      then show ?thesis using Some False by (simp add: enum_read_def available_managers_items_def)
    qed
  qed
qed

lemma load_settings_empty:
  assumes "project_entry_of s (project s) = empty_entry"
  shows "load_settings h s = (None, set_available_managers [] s)"
  using assms by (simp add: load_settings_def)

lemma load_settings_stale:
  assumes "project_entry_of s (project s) = ps"
      and "flamenco_manager_id ps = Some (PyStr i)" "i \<noteq> []"
      and "i \<notin> set (map fst (saved_available_managers ps))"
  shows "load_settings h s =
     (None, emit (LogWarning (''manager '' @ i @ '' for this project could not be found''))
              (set_available_managers (saved_available_managers ps)
                 (restore_simple_props PROJECT_SPECIFIC_SIMPLE_PROPS ps s)))"
proof -
  from assms(3,4)
  have "first_index i (map fst (available_managers_items (saved_available_managers ps))) = None"
    by (simp add: first_index_None items_ids)
  then show ?thesis
    using assms entry_with_id_nonempty[OF assms(2)]
    by (simp add: load_settings_def Let_def set_manager_def set_available_managers_def emit_def)
qed

lemma load_settings_selected:
  assumes "project_entry_of s (project s) = ps"
      and "flamenco_manager_id ps = Some (PyStr i)" "i \<noteq> []"
      and "i \<in> set (map fst (saved_available_managers ps))"
  shows "\<exists>n. enum_read (available_managers_items (saved_available_managers ps)) (Some n) = PyStr i
     \<and> load_settings h s =
     (None, restore_manager_settings ps (PyStr i)
              (emit (PrefWrite ''flamenco_manager.manager'')
                ((set_available_managers (saved_available_managers ps)
                   (restore_simple_props PROJECT_SPECIFIC_SIMPLE_PROPS ps s))
                 \<lparr>manager_item := Some n\<rparr>)))"
proof -
  from enum_read_first_index[OF assms(3,4)] obtain n where
    n: "first_index i (map fst (available_managers_items (saved_available_managers ps))) = Some n"
       "enum_read (available_managers_items (saved_available_managers ps)) (Some n) = PyStr i"
    by blast
  have "load_settings h s =
     (None, restore_manager_settings ps (PyStr i)
              (emit (PrefWrite ''flamenco_manager.manager'')
                ((set_available_managers (saved_available_managers ps)
                   (restore_simple_props PROJECT_SPECIFIC_SIMPLE_PROPS ps s))
                 \<lparr>manager_item := Some n\<rparr>)))"
    using assms entry_with_id_nonempty[OF assms(2)] n(1)
    by (simp add: load_settings_def Let_def set_manager_def set_available_managers_def emit_def)
  with n(2) show ?thesis by blast
qed

lemma load_settings_no_manager:
  assumes "project_entry_of s (project s) = ps" "ps \<noteq> empty_entry"
      and "\<not> truthy (case flamenco_manager_id ps of None \<Rightarrow> PyNone | Some v \<Rightarrow> v)"
  shows "load_settings h s =
     (let s2 = set_available_managers (saved_available_managers ps)
                   (restore_simple_props PROJECT_SPECIFIC_SIMPLE_PROPS ps s)
      in if enum_accepts_none h
         then (None, emit (PrefWrite ''flamenco_manager.manager'') (s2\<lparr>manager_item := None\<rparr>))
         else (Some TypeError, s2))"
  using assms
  by (simp add: load_settings_def Let_def set_manager_def)

lemma load_settings_attrs:
  assumes "project_entry_of s (project s) \<noteq> empty_entry"
  shows "attrs (snd (load_settings h s)) =
         attrs (restore_simple_props PROJECT_SPECIFIC_SIMPLE_PROPS
                  (project_entry_of s (project s)) s)"
  using assms
  by (auto simp: load_settings_def Let_def set_manager_def set_available_managers_def emit_def
        restore_manager_settings_def
        split: sum.splits exn.splits pyid.splits option.splits if_splits)

lemma handle_project_update_attrs:
  assumes "project_entry_of s (project s) \<noteq> empty_entry"
  shows "map_of (attrs (snd (handle_project_update h s))) name =
     (if name \<in> set PROJECT_SPECIFIC_SIMPLE_PROPS
         \<and> map_of (simple_props (project_entry_of s (project s))) name \<noteq> None
         \<and> name \<in> set (map fst (attrs s))
      then map_of (simple_props (project_entry_of s (project s))) name
      else map_of (attrs s) name)"
proof -
  let ?s0 = "switch_extensions h (s\<lparr>project_settings_loading := True\<rparr>)"
  have e: "project_entry_of ?s0 (project ?s0) = project_entry_of s (project s)" by simp
  have ne: "project_entry_of ?s0 (project ?s0) \<noteq> empty_entry" using assms e by simp
  show ?thesis
    unfolding handle_project_update_eq
    by (auto simp add: load_settings_attrs[OF ne] e restore_simple_props_value)
qed

lemma load_settings_available:
  "available_managers (snd (load_settings h s)) =
     saved_available_managers (project_entry_of s (project s))"
  by (auto simp: load_settings_def Let_def set_manager_def set_available_managers_def emit_def
        restore_manager_settings_def restore_simple_props_frame saved_available_managers_def
        empty_entry_def
        split: sum.splits exn.splits pyid.splits option.splits if_splits)

lemma handle_project_update_available:
  "available_managers (snd (handle_project_update h s)) =
     saved_available_managers (project_entry_of s (project s))"
  by (simp add: handle_project_update_eq load_settings_available)

lemma handle_project_update_selected:
  assumes "flamenco_manager_id (project_entry_of s (project s)) = Some (PyStr i)"
      and "i \<noteq> []"
      and "i \<in> set (map fst (saved_available_managers (project_entry_of s (project s))))"
  shows "fst (handle_project_update h s) = None
       \<and> manager (snd (handle_project_update h s)) = PyStr i
       \<and> flamenco_job_file_path (snd (handle_project_update h s)) =
           (case map_of (managers_settings_of (project_entry_of s (project s))) (PyStr i) of
              None \<Rightarrow> flamenco_job_file_path s | Some pppm \<Rightarrow> file_path pppm)
       \<and> flamenco_job_output_path (snd (handle_project_update h s)) =
           (case map_of (managers_settings_of (project_entry_of s (project s))) (PyStr i) of
              None \<Rightarrow> flamenco_job_output_path s | Some pppm \<Rightarrow> output_path pppm)
       \<and> flamenco_job_output_strip_components (snd (handle_project_update h s)) =
           (case map_of (managers_settings_of (project_entry_of s (project s))) (PyStr i) of
              None \<Rightarrow> flamenco_job_output_strip_components s
            | Some pppm \<Rightarrow> output_strip_components pppm)"
proof -
  let ?s0 = "switch_extensions h (s\<lparr>project_settings_loading := True\<rparr>)"
  let ?ps = "project_entry_of s (project s)"
  have e: "project_entry_of ?s0 (project ?s0) = ?ps" by simp
  from load_settings_selected[OF e assms, of h] obtain n where
    n: "enum_read (available_managers_items (saved_available_managers ?ps)) (Some n) = PyStr i"
    and ls: "load_settings h ?s0 =
     (None, restore_manager_settings ?ps (PyStr i)
              (emit (PrefWrite ''flamenco_manager.manager'')
                ((set_available_managers (saved_available_managers ?ps)
                   (restore_simple_props PROJECT_SPECIFIC_SIMPLE_PROPS ?ps ?s0))
                 \<lparr>manager_item := Some n\<rparr>)))"
    by blast
  show ?thesis
  proof (cases "map_of (managers_settings_of ?ps) (PyStr i)")
    case None
    show ?thesis
      unfolding handle_project_update_eq ls restore_manager_settings_none[OF None]
      using n
      by (simp add: None emit_def set_available_managers_def restore_simple_props_frame manager_def)
  next
    case (Some pppm)
    show ?thesis
      unfolding handle_project_update_eq ls restore_manager_settings_some[OF Some]
      using n
      by (simp add: Some emit_def set_available_managers_def restore_simple_props_frame manager_def)
  qed
qed

lemma load_saved_manager:
  assumes "flamenco_manager_id (project_entry_of s (project s)) = Some (PyStr i)"
      and "i \<noteq> []"
      and "i \<in> set (map fst (saved_available_managers (project_entry_of s (project s))))"
      and "map_of (managers_settings_of (project_entry_of s (project s))) (PyStr i) = Some pppm"
  shows "fst (handle_project_update h s) = None
       \<and> manager (snd (handle_project_update h s)) = PyStr i
       \<and> flamenco_job_file_path (snd (handle_project_update h s)) = file_path pppm
       \<and> flamenco_job_output_path (snd (handle_project_update h s)) = output_path pppm
       \<and> flamenco_job_output_strip_components (snd (handle_project_update h s)) =
           output_strip_components pppm"
  using handle_project_update_selected[OF assms(1-3), of h] assms(4) by simp

lemma load_settings_events:
  "\<exists>rest. events (snd (load_settings h s)) =
            events s @ map (\<lambda>e. (e, project_settings_loading s)) rest
        \<and> rest \<noteq> [] \<and> list_all is_restore_event rest
        \<and> project_settings_loading (snd (load_settings h s)) = project_settings_loading s"
proof -
  let ?ps = "project_entry_of s (project s)"
  let ?s1 = "restore_simple_props PROJECT_SPECIFIC_SIMPLE_PROPS ?ps s"
  let ?s2 = "set_available_managers (saved_available_managers ?ps) ?s1"
  let ?tag = "\<lambda>e. (e, project_settings_loading s)"
  obtain r1 where r1: "events ?s1 = events s @ map ?tag r1" "list_all is_restore_event r1"
    using restore_simple_props_events by blast
  have l1: "project_settings_loading ?s1 = project_settings_loading s"
    by (simp add: restore_simple_props_frame)
  have e2: "events ?s2 = events s @ map ?tag (r1 @ [PrefWrite ''flamenco_manager.available_managers''])"
    and l2: "project_settings_loading ?s2 = project_settings_loading s"
    by (simp_all add: set_available_managers_def emit_def r1 l1)
  show ?thesis
  proof (cases "?ps = empty_entry")
    case True
    show ?thesis
      by (rule exI[of _ "[PrefWrite ''flamenco_manager.available_managers'']"])
         (simp add: load_settings_empty[OF True] set_available_managers_def emit_def)
  next
    case ne: False
    show ?thesis
    proof (cases "truthy (case flamenco_manager_id ?ps of None \<Rightarrow> PyNone | Some v \<Rightarrow> v)")
      case False
      have ls: "load_settings h s =
          (if enum_accepts_none h
           then (None, emit (PrefWrite ''flamenco_manager.manager'') (?s2\<lparr>manager_item := None\<rparr>))
           else (Some TypeError, ?s2))"
        using load_settings_no_manager[OF refl ne False, of h] by (simp add: Let_def)
      show ?thesis
      proof (cases "enum_accepts_none h")
        case True
        show ?thesis
          by (rule exI[of _ "r1 @ [PrefWrite ''flamenco_manager.available_managers'', PrefWrite ''flamenco_manager.manager'']"])
             (simp add: ls True emit_def e2 l2 r1)
      next
        case False
        show ?thesis
          by (rule exI[of _ "r1 @ [PrefWrite ''flamenco_manager.available_managers'']"])
             (simp add: ls False e2 l2 r1)
      qed
    next
      case True
      then obtain i where i: "flamenco_manager_id ?ps = Some (PyStr i)" "i \<noteq> []"
        by (cases "flamenco_manager_id ?ps"; simp) (metis truthy.elims(2))
      show ?thesis
      proof (cases "i \<in> set (map fst (saved_available_managers ?ps))")
        case False
        show ?thesis
          by (rule exI[of _ "r1 @ [PrefWrite ''flamenco_manager.available_managers'',
                 LogWarning (''manager '' @ i @ '' for this project could not be found'')]"])
             (simp add: load_settings_stale[OF refl i False] emit_def e2 l2 r1)
      next
        case sel: True
        from load_settings_selected[where s=s and h=h, OF refl i sel] obtain n where
          ls: "load_settings h s =
            (None, restore_manager_settings ?ps (PyStr i)
                     (emit (PrefWrite ''flamenco_manager.manager'') (?s2\<lparr>manager_item := Some n\<rparr>)))"
          by blast
        let ?s3 = "emit (PrefWrite ''flamenco_manager.manager'') (?s2\<lparr>manager_item := Some n\<rparr>)"
        have e3: "events ?s3 = events s @ map ?tag (r1 @ [PrefWrite ''flamenco_manager.available_managers'',
                    PrefWrite ''flamenco_manager.manager''])"
          and l3: "project_settings_loading ?s3 = project_settings_loading s"
          by (simp_all add: emit_def e2 l2)
        show ?thesis
        proof (cases "map_of (managers_settings_of ?ps) (PyStr i)")
          case None
          show ?thesis
            by (rule exI[of _ "r1 @ [PrefWrite ''flamenco_manager.available_managers'',
                    PrefWrite ''flamenco_manager.manager'']"])
               (simp add: ls restore_manager_settings_none[OF None] e3 l3 r1)
        next
          case (Some pppm)
          show ?thesis
            by (rule exI[of _ "r1 @ [PrefWrite ''flamenco_manager.available_managers'',
                    PrefWrite ''flamenco_manager.manager'', PrefWrite ''flamenco_job_file_path'',
                    PrefWrite ''flamenco_job_output_path'',
                    PrefWrite ''flamenco_job_output_strip_components'']"])
               (simp add: ls restore_manager_settings_some[OF Some] e3 l3 r1)
        qed
      qed
    qed
  qed
qed

section \<open>The claims\<close>

text \<open>
  C1 (round trip). \<^verbatim>\<open>store()\<close> runs with the flag clear and does not raise, in a state
  \<open>s0\<close> whose current project is \<open>P\<close>; afterwards the live preferences may change in any
  way, as long as the persisted mapping, the current project and the set of attributes
  of the preferences object stay what they were (\<open>s2\<close>). Then, after
  \<^verbatim>\<open>handle_project_update\<close>, every property named in \<^verbatim>\<open>PROJECT_SPECIFIC_SIMPLE_PROPS\<close> has
  the value \<^verbatim>\<open>store()\<close> persisted, which is the value it had in \<open>s0\<close>; and when a manager
  was selected in \<open>s0\<close>, the handler does not raise, selects that manager again, and the
  three job fields have the values \<^verbatim>\<open>store()\<close> persisted under that manager's key.
\<close>

theorem store_then_load_roundtrip:
  assumes nl: "\<not> project_settings_loading s0"
      and st: "store s0 = (None, s1)"
      and ps: "project_settings s2 = project_settings s1"
      and pr: "project s2 = project s0"
      and at: "set (map fst (attrs s2)) = set (map fst (attrs s0))"
  shows "(\<forall>name \<in> set PROJECT_SPECIFIC_SIMPLE_PROPS.
            \<exists>v. map_of (attrs s0) name = Some v
               \<and> map_of (simple_props (project_entry_of s1 (project s0))) name = Some v
               \<and> map_of (attrs (snd (handle_project_update h s2))) name = Some v)
       \<and> (manager_selected s0 \<longrightarrow>
            map_of (managers_settings_of (project_entry_of s1 (project s0))) (manager s0) =
              Some \<lparr>file_path = flamenco_job_file_path s0,
                    output_path = flamenco_job_output_path s0,
                    output_strip_components = flamenco_job_output_strip_components s0\<rparr>
          \<and> fst (handle_project_update h s2) = None
          \<and> manager (snd (handle_project_update h s2)) = manager s0
          \<and> flamenco_job_file_path (snd (handle_project_update h s2)) = flamenco_job_file_path s0
          \<and> flamenco_job_output_path (snd (handle_project_update h s2)) =
              flamenco_job_output_path s0
          \<and> flamenco_job_output_strip_components (snd (handle_project_update h s2)) =
              flamenco_job_output_strip_components s0)"
proof (cases s0 rule: store_cases)
  case loading
  then show ?thesis using nl by simp
next
  case raise
  then show ?thesis using st by simp
next
  case (ok v)
  let ?e = "stored_entry s0 v"
  have s1: "s1 = s0\<lparr>project_settings :=
                     Some (AList.update (project s0) ?e (all_settings_of s0))\<rparr>"
    using st store_success[OF ok] by simp
  have e1: "project_entry_of s1 (project s0) = ?e"
    unfolding s1 by (rule entry_after_store)
  have e2: "project_entry_of s2 (project s2) = ?e"
    using project_entry_of_cong[OF ps, of "project s0"] e1 pr by simp
  have ne: "project_entry_of s2 (project s2) \<noteq> empty_entry"
    unfolding e2 by (rule stored_entry_nonempty)
  have sv: "map_of (simple_props ?e) ''cloud_project_local_path'' = Some v"
    by (simp add: stored_entry_def AList.update_conv')
  have key: "''cloud_project_local_path'' \<in> set (map fst (attrs s2))"
    unfolding at using ok(2) by (auto dest: map_of_SomeD intro: rev_image_eqI)
  have simple: "\<forall>name \<in> set PROJECT_SPECIFIC_SIMPLE_PROPS.
            \<exists>v. map_of (attrs s0) name = Some v
               \<and> map_of (simple_props (project_entry_of s1 (project s0))) name = Some v
               \<and> map_of (attrs (snd (handle_project_update h s2))) name = Some v"
    unfolding handle_project_update_attrs[OF ne] e1 e2
    using ok(2) sv key by (simp add: PROJECT_SPECIFIC_SIMPLE_PROPS_def)
  have mgr: "map_of (managers_settings_of (project_entry_of s1 (project s0))) (manager s0) =
              Some \<lparr>file_path = flamenco_job_file_path s0,
                    output_path = flamenco_job_output_path s0,
                    output_strip_components = flamenco_job_output_strip_components s0\<rparr>
          \<and> fst (handle_project_update h s2) = None
          \<and> manager (snd (handle_project_update h s2)) = manager s0
          \<and> flamenco_job_file_path (snd (handle_project_update h s2)) = flamenco_job_file_path s0
          \<and> flamenco_job_output_path (snd (handle_project_update h s2)) =
              flamenco_job_output_path s0
          \<and> flamenco_job_output_strip_components (snd (handle_project_update h s2)) =
              flamenco_job_output_strip_components s0" if sel: "manager_selected s0"
  proof -
    from sel obtain i where i: "manager s0 = PyStr i" "i \<noteq> []"
        "i \<in> set (map fst (available_managers s0))"
      by (auto simp: manager_selected_def split: pyid.splits)
    let ?pppm = "\<lparr>file_path = flamenco_job_file_path s0,
                    output_path = flamenco_job_output_path s0,
                    output_strip_components = flamenco_job_output_strip_components s0\<rparr>"
    have a1: "flamenco_manager_id (project_entry_of s2 (project s2)) = Some (PyStr i)"
      unfolding e2 by (simp add: stored_entry_def i)
    have a3: "i \<in> set (map fst (saved_available_managers (project_entry_of s2 (project s2))))"
      unfolding e2 using i(3) by (simp add: stored_entry_def saved_available_managers_def)
    have a4: "map_of (managers_settings_of (project_entry_of s2 (project s2))) (PyStr i) =
                Some ?pppm"
      unfolding e2 by (simp add: stored_entry_def managers_settings_of_def AList.update_conv' i)
    from load_saved_manager[OF a1 i(2) a3 a4, of h] a4
    show ?thesis unfolding e1 e2 by (simp add: i)
  qed
  from simple mgr show ?thesis by blast
qed

theorem store_then_load_roundtrip_witness:
  "\<not> project_settings_loading studio_state
   \<and> store studio_state = (None, snd (store studio_state))
   \<and> project_settings (scrambled (snd (store studio_state))) =
       project_settings (snd (store studio_state))
   \<and> project (scrambled (snd (store studio_state))) = project studio_state
   \<and> set (map fst (attrs (scrambled (snd (store studio_state))))) =
       set (map fst (attrs studio_state))
   \<and> manager_selected studio_state
   \<and> map_of (attrs (scrambled (snd (store studio_state)))) ''cloud_project_local_path'' =
       Some ''/tmp''
   \<and> map_of (attrs (snd (handle_project_update flamenco_host
               (scrambled (snd (store studio_state)))))) ''cloud_project_local_path'' =
       Some ''//../''
   \<and> manager (snd (handle_project_update flamenco_host (scrambled (snd (store studio_state))))) =
       PyStr ''m2''
   \<and> flamenco_job_file_path
        (snd (handle_project_update flamenco_host (scrambled (snd (store studio_state))))) =
       ''/render/_flamenco/storage''
   \<and> flamenco_job_output_path
        (snd (handle_project_update flamenco_host (scrambled (snd (store studio_state))))) =
       ''/render/_flamenco/output''
   \<and> flamenco_job_output_strip_components
        (snd (handle_project_update flamenco_host (scrambled (snd (store studio_state))))) = 0"
proof -
  let ?s1 = "snd (store studio_state)"
  have h1: "\<not> project_settings_loading studio_state" by code_simp
  have h2: "store studio_state = (None, ?s1)" by code_simp
  have h3: "project_settings (scrambled ?s1) = project_settings ?s1"
    by (simp add: scrambled_def)
  have h4: "project (scrambled ?s1) = project studio_state" by code_simp
  have h5: "set (map fst (attrs (scrambled ?s1))) = set (map fst (attrs studio_state))"
    by code_simp
  have sel: "manager_selected studio_state" by code_simp
  have v: "map_of (attrs studio_state) ''cloud_project_local_path'' = Some ''//../''"
     "manager studio_state = PyStr ''m2''"
     "flamenco_job_file_path studio_state = ''/render/_flamenco/storage''"
     "flamenco_job_output_path studio_state = ''/render/_flamenco/output''"
     "flamenco_job_output_strip_components studio_state = 0"
     "map_of (attrs (scrambled ?s1)) ''cloud_project_local_path'' = Some ''/tmp''"
    by code_simp+
  from store_then_load_roundtrip [OF h1 h2 h3 h4 h5, of flamenco_host] sel v
  have "map_of (attrs (snd (handle_project_update flamenco_host (scrambled ?s1))))
           ''cloud_project_local_path'' = Some ''//../''
      \<and> manager (snd (handle_project_update flamenco_host (scrambled ?s1))) = PyStr ''m2''
      \<and> flamenco_job_file_path (snd (handle_project_update flamenco_host (scrambled ?s1))) =
           ''/render/_flamenco/storage''
      \<and> flamenco_job_output_path (snd (handle_project_update flamenco_host (scrambled ?s1))) =
           ''/render/_flamenco/output''
      \<and> flamenco_job_output_strip_components
           (snd (handle_project_update flamenco_host (scrambled ?s1))) = 0"
    by (simp add: PROJECT_SPECIFIC_SIMPLE_PROPS_def)
  with h1 h2 h3 h4 h5 sel v(6) show ?thesis by blast
qed

text \<open>
  C2 (guard). In every state in which \<^verbatim>\<open>project_settings_loading\<close> is true, \<^verbatim>\<open>store()\<close>
  returns at once, without an exception, and the whole state, the persisted
  \<^verbatim>\<open>project_settings\<close> mapping included, is what it was.
\<close>

theorem store_noop_while_loading:
  assumes "project_settings_loading s"
  shows "store s = (None, s)"
  using assms by (simp add: store_def)

theorem store_noop_while_loading_witness:
  "project_settings_loading (spec_example_state\<lparr>project_settings_loading := True\<rparr>)
   \<and> store (spec_example_state\<lparr>project_settings_loading := True\<rparr>) =
       (None, spec_example_state\<lparr>project_settings_loading := True\<rparr>)"
  using store_noop_while_loading [of "spec_example_state\<lparr>project_settings_loading := True\<rparr>"]
  by simp

text \<open>
  C3 (stale manager), as stated. The handler makes no assignment to the manager field
  after the failed one, but line 74 has replaced the list the enum reads against: with
  \<^verbatim>\<open>m1\<close> selected before the call and still in the saved list, the field reads \<^verbatim>\<open>m1\<close>
  afterwards, so a manager is selected although the saved id \<^verbatim>\<open>gone\<close> was refused.
\<close>

theorem stale_manager_counterexample:
  "flamenco_manager_id (project_entry_of stale_state (project stale_state)) = Some (PyStr ''gone'')
   \<and> ''gone'' \<notin> set (map fst (saved_available_managers
                   (project_entry_of stale_state (project stale_state))))
   \<and> fst (handle_project_update flamenco_host stale_state) = None
   \<and> manager (snd (handle_project_update flamenco_host stale_state)) = PyStr ''m1''
   \<and> manager_selected (snd (handle_project_update flamenco_host stale_state))"
  by code_simp

text \<open>
  C3, amended. The saved entry of the current project names a non-empty manager id that
  is not the id of any manager in the saved list of available managers. Then the handler
  returns without an exception and with the loading flag clear; the last thing it does is
  log the warning; before that it has restored the simple properties and the saved list
  of available managers; the job fields are untouched. The manager field is not assigned:
  the stored item is the one from before the call, and what the field reads is taken from
  the restored list, so it is the empty string or the id of one of the restored managers
  (or \<^verbatim>\<open>None\<close> on a host that had accepted it), and never the stale id.
\<close>

theorem stale_manager_not_fatal:
  assumes "flamenco_manager_id (project_entry_of s (project s)) = Some (PyStr i)"
      and "i \<noteq> []"
      and "i \<notin> set (map fst (saved_available_managers (project_entry_of s (project s))))"
  shows "fst (handle_project_update h s) = None
       \<and> last (events (snd (handle_project_update h s))) =
           (LogWarning (''manager '' @ i @ '' for this project could not be found''), True)
       \<and> manager_item (snd (handle_project_update h s)) = manager_item s
       \<and> available_managers (snd (handle_project_update h s)) =
           saved_available_managers (project_entry_of s (project s))
       \<and> manager (snd (handle_project_update h s)) =
           enum_read (available_managers_items
                        (saved_available_managers (project_entry_of s (project s))))
                     (manager_item s)
       \<and> manager (snd (handle_project_update h s)) \<noteq> PyStr i
       \<and> (manager (snd (handle_project_update h s)) = PyNone
          \<or> manager (snd (handle_project_update h s)) = PyStr []
          \<or> (\<exists>j. manager (snd (handle_project_update h s)) = PyStr j
                 \<and> j \<in> set (map fst (saved_available_managers
                                         (project_entry_of s (project s))))))
       \<and> (\<forall>name \<in> set PROJECT_SPECIFIC_SIMPLE_PROPS. \<forall>v.
             map_of (simple_props (project_entry_of s (project s))) name = Some v
             \<longrightarrow> name \<in> set (map fst (attrs s))
             \<longrightarrow> map_of (attrs (snd (handle_project_update h s))) name = Some v)
       \<and> flamenco_job_file_path (snd (handle_project_update h s)) = flamenco_job_file_path s
       \<and> flamenco_job_output_path (snd (handle_project_update h s)) = flamenco_job_output_path s
       \<and> flamenco_job_output_strip_components (snd (handle_project_update h s)) =
           flamenco_job_output_strip_components s
       \<and> \<not> project_settings_loading (snd (handle_project_update h s))"
proof -
  let ?s0 = "switch_extensions h (s\<lparr>project_settings_loading := True\<rparr>)"
  let ?ps = "project_entry_of s (project s)"
  let ?s' = "snd (handle_project_update h s)"
  have e: "project_entry_of ?s0 (project ?s0) = ?ps" by simp
  have ne: "?ps \<noteq> empty_entry" by (rule entry_with_id_nonempty[OF assms(1)])
  have main: "fst (handle_project_update h s) = None
       \<and> last (events ?s') =
           (LogWarning (''manager '' @ i @ '' for this project could not be found''), True)
       \<and> manager_item ?s' = manager_item s
       \<and> available_managers ?s' = saved_available_managers ?ps
       \<and> flamenco_job_file_path ?s' = flamenco_job_file_path s
       \<and> flamenco_job_output_path ?s' = flamenco_job_output_path s
       \<and> flamenco_job_output_strip_components ?s' = flamenco_job_output_strip_components s
       \<and> \<not> project_settings_loading ?s'"
    unfolding handle_project_update_eq load_settings_stale[OF e assms]
    by (simp add: emit_def set_available_managers_def restore_simple_props_frame)
  then have rd: "manager ?s' =
      enum_read (available_managers_items (saved_available_managers ?ps)) (manager_item s)"
    by (simp add: manager_def)
  from enum_read_cases[of "saved_available_managers ?ps" "manager_item s"]
  have cs: "manager ?s' = PyNone \<or> manager ?s' = PyStr []
          \<or> (\<exists>j. manager ?s' = PyStr j \<and> j \<in> set (map fst (saved_available_managers ?ps)))"
    unfolding rd .
  with assms(2,3) have nst: "manager ?s' \<noteq> PyStr i" by force
  have sp: "\<forall>name \<in> set PROJECT_SPECIFIC_SIMPLE_PROPS. \<forall>v.
             map_of (simple_props ?ps) name = Some v
             \<longrightarrow> name \<in> set (map fst (attrs s))
             \<longrightarrow> map_of (attrs ?s') name = Some v"
    by (simp add: handle_project_update_attrs[OF ne])
  from main rd cs nst sp show ?thesis by blast
qed

theorem stale_manager_not_fatal_witness:
  "flamenco_manager_id (project_entry_of stale_state (project stale_state)) = Some (PyStr ''gone'')
   \<and> ''gone'' \<noteq> []
   \<and> ''gone'' \<notin> set (map fst (saved_available_managers
                   (project_entry_of stale_state (project stale_state))))
   \<and> available_managers stale_state = [(''m1'', ''Manager 1'')]
   \<and> map_of (attrs stale_state) ''cloud_project_local_path'' = Some ''//../''
   \<and> fst (handle_project_update flamenco_host stale_state) = None
   \<and> last (events (snd (handle_project_update flamenco_host stale_state))) =
       (LogWarning ''manager gone for this project could not be found'', True)
   \<and> manager_item (snd (handle_project_update flamenco_host stale_state)) = Some 0
   \<and> available_managers (snd (handle_project_update flamenco_host stale_state)) = two_managers
   \<and> manager (snd (handle_project_update flamenco_host stale_state)) = PyStr ''m1''
   \<and> map_of (attrs (snd (handle_project_update flamenco_host stale_state)))
        ''cloud_project_local_path'' = Some ''/projects/a''
   \<and> flamenco_job_file_path (snd (handle_project_update flamenco_host stale_state)) =
       ''/render/_flamenco/storage''
   \<and> \<not> project_settings_loading (snd (handle_project_update flamenco_host stale_state))"
proof -
  let ?ps = "project_entry_of stale_state (project stale_state)"
  have h1: "flamenco_manager_id ?ps = Some (PyStr ''gone'')" by code_simp
  have h2: "''gone'' \<noteq> []" by simp
  have h3: "''gone'' \<notin> set (map fst (saved_available_managers ?ps))" by code_simp
  have v: "manager_item stale_state = Some 0"
     "saved_available_managers ?ps = two_managers"
     "flamenco_job_file_path stale_state = ''/render/_flamenco/storage''"
     "available_managers stale_state = [(''m1'', ''Manager 1'')]"
     "map_of (attrs stale_state) ''cloud_project_local_path'' = Some ''//../''"
     "map_of (simple_props ?ps) ''cloud_project_local_path'' = Some ''/projects/a''"
     "''cloud_project_local_path'' \<in> set (map fst (attrs stale_state))"
     "enum_read (available_managers_items two_managers) (Some 0) = PyStr ''m1''"
    by code_simp+
  from stale_manager_not_fatal [OF h1 h2 h3, of flamenco_host] h1 h2 h3 v
  show ?thesis by (simp add: PROJECT_SPECIFIC_SIMPLE_PROPS_def)
qed

text \<open>
  C4 (the spec's example). As the example is written, the saved entry has no
  \<^verbatim>\<open>'flamenco_available_managers'\<close> key: the handler first replaces the live list of
  managers by the empty list, the enum then has only its placeholder item, the assignment
  of \<^verbatim>\<open>m1\<close> raises \<^verbatim>\<open>TypeError\<close>, and neither the manager nor the job fields are set.
\<close>

theorem spec_example_load_counterexample:
  "manager (snd (handle_project_update flamenco_host spec_example_state)) \<noteq> PyStr ''m1''
   \<and> flamenco_job_file_path (snd (handle_project_update flamenco_host spec_example_state)) \<noteq> ''/a''
   \<and> flamenco_job_output_path (snd (handle_project_update flamenco_host spec_example_state)) \<noteq> ''/b''
   \<and> flamenco_job_output_strip_components
        (snd (handle_project_update flamenco_host spec_example_state)) \<noteq> 2"
  by code_simp

text \<open>
  C4, amended. When the saved entry of \<^verbatim>\<open>projA\<close> has, besides the two keys of the
  example, a saved list of available managers in which \<^verbatim>\<open>m1\<close> occurs, the handler sets
  the manager to \<^verbatim>\<open>m1\<close>, the job file path to \<^verbatim>\<open>/a\<close>, the job output path to \<^verbatim>\<open>/b\<close> and the
  strip count to 2, and does not raise.
\<close>

theorem load_spec_example_with_available_manager:
  assumes "project s = ''projA''"
      and "flamenco_manager_id (project_entry_of s ''projA'') = Some (PyStr ''m1'')"
      and "map_of (managers_settings_of (project_entry_of s ''projA'')) (PyStr ''m1'') =
             Some m1_settings"
      and "''m1'' \<in> set (map fst (saved_available_managers (project_entry_of s ''projA'')))"
  shows "fst (handle_project_update h s) = None
       \<and> manager (snd (handle_project_update h s)) = PyStr ''m1''
       \<and> flamenco_job_file_path (snd (handle_project_update h s)) = ''/a''
       \<and> flamenco_job_output_path (snd (handle_project_update h s)) = ''/b''
       \<and> flamenco_job_output_strip_components (snd (handle_project_update h s)) = 2"
  using load_saved_manager[of s "''m1''" m1_settings h] assms
  by (simp add: m1_settings_def)

theorem load_spec_example_with_available_manager_witness:
  "project studio_state = ''projA''
   \<and> flamenco_manager_id (project_entry_of studio_state ''projA'') = Some (PyStr ''m1'')
   \<and> map_of (managers_settings_of (project_entry_of studio_state ''projA'')) (PyStr ''m1'') =
        Some m1_settings
   \<and> ''m1'' \<in> set (map fst (saved_available_managers (project_entry_of studio_state ''projA'')))
   \<and> fst (handle_project_update flamenco_host studio_state) = None
   \<and> manager (snd (handle_project_update flamenco_host studio_state)) = PyStr ''m1''
   \<and> flamenco_job_file_path (snd (handle_project_update flamenco_host studio_state)) = ''/a''
   \<and> flamenco_job_output_path (snd (handle_project_update flamenco_host studio_state)) = ''/b''
   \<and> flamenco_job_output_strip_components
        (snd (handle_project_update flamenco_host studio_state)) = 2"
proof -
  have h1: "project studio_state = ''projA''" by code_simp
  have h2: "flamenco_manager_id (project_entry_of studio_state ''projA'') = Some (PyStr ''m1'')"
    by code_simp
  have h3: "map_of (managers_settings_of (project_entry_of studio_state ''projA'')) (PyStr ''m1'') =
        Some m1_settings" by code_simp
  have h4: "''m1'' \<in> set (map fst (saved_available_managers (project_entry_of studio_state ''projA'')))"
    by code_simp
  from load_spec_example_with_available_manager [OF h1 h2 h3 h4, of flamenco_host] h1 h2 h3 h4
  show ?thesis by blast
qed

text \<open>
  C5 (nothing saved for the manager). The saved manager id is selected successfully, and
  the saved entry has no \<^verbatim>\<open>'flamenco_managers_settings'\<close> key, or that sub-mapping has no
  key for the manager. Then the handler does not raise and the three job fields keep the
  values they had before the call.
\<close>

theorem missing_manager_settings_keep_job_fields:
  assumes "flamenco_manager_id (project_entry_of s (project s)) = Some (PyStr i)"
      and "i \<noteq> []"
      and "i \<in> set (map fst (saved_available_managers (project_entry_of s (project s))))"
      and "flamenco_managers_settings (project_entry_of s (project s)) = None
           \<or> (\<exists>ms. flamenco_managers_settings (project_entry_of s (project s)) = Some ms
                  \<and> map_of ms (PyStr i) = None)"
  shows "fst (handle_project_update h s) = None
       \<and> manager (snd (handle_project_update h s)) = PyStr i
       \<and> flamenco_job_file_path (snd (handle_project_update h s)) = flamenco_job_file_path s
       \<and> flamenco_job_output_path (snd (handle_project_update h s)) = flamenco_job_output_path s
       \<and> flamenco_job_output_strip_components (snd (handle_project_update h s)) =
           flamenco_job_output_strip_components s"
proof -
  let ?ps = "project_entry_of s (project s)"
  from assms(4) have n: "map_of (managers_settings_of ?ps) (PyStr i) = None"
    by (auto simp: managers_settings_of_def)
  from handle_project_update_selected[OF assms(1-3), of h] show ?thesis
    by (simp add: n)
qed

theorem missing_manager_settings_keep_job_fields_witness:
  "flamenco_manager_id (project_entry_of unsaved_manager_state (project unsaved_manager_state)) =
     Some (PyStr ''m2'')
   \<and> ''m2'' \<noteq> []
   \<and> ''m2'' \<in> set (map fst (saved_available_managers
                 (project_entry_of unsaved_manager_state (project unsaved_manager_state))))
   \<and> (\<exists>ms. flamenco_managers_settings
              (project_entry_of unsaved_manager_state (project unsaved_manager_state)) = Some ms
          \<and> map_of ms (PyStr ''m2'') = None)
   \<and> fst (handle_project_update flamenco_host unsaved_manager_state) = None
   \<and> manager (snd (handle_project_update flamenco_host unsaved_manager_state)) = PyStr ''m2''
   \<and> flamenco_job_file_path (snd (handle_project_update flamenco_host unsaved_manager_state)) =
       ''/render/_flamenco/storage''
   \<and> flamenco_job_output_path (snd (handle_project_update flamenco_host unsaved_manager_state)) =
       ''/render/_flamenco/output''
   \<and> flamenco_job_output_strip_components
        (snd (handle_project_update flamenco_host unsaved_manager_state)) = 0"
proof -
  let ?ps = "project_entry_of unsaved_manager_state (project unsaved_manager_state)"
  have h1: "flamenco_manager_id ?ps = Some (PyStr ''m2'')" by code_simp
  have h2: "''m2'' \<noteq> []" by simp
  have h3: "''m2'' \<in> set (map fst (saved_available_managers ?ps))" by code_simp
  have h4': "flamenco_managers_settings ?ps = Some [(PyStr ''m1'', m1_settings)]
             \<and> map_of [(PyStr ''m1'', m1_settings)] (PyStr ''m2'') = None" by code_simp
  then have h4: "\<exists>ms. flamenco_managers_settings ?ps = Some ms \<and> map_of ms (PyStr ''m2'') = None"
    by blast
  have v: "flamenco_job_file_path unsaved_manager_state = ''/render/_flamenco/storage''"
     "flamenco_job_output_path unsaved_manager_state = ''/render/_flamenco/output''"
     "flamenco_job_output_strip_components unsaved_manager_state = 0"
    by code_simp+
  from missing_manager_settings_keep_job_fields [OF h1 h2 h3 disjI2 [OF h4], of flamenco_host]
    h1 h2 h3 h4
  show ?thesis unfolding v by blast
qed

text \<open>
  C6 (no saved entry), as stated. With \<^verbatim>\<open>m2\<close> selected and no entry persisted for the
  current project, the handler empties the list of available managers; the enum then has
  only its placeholder item and the manager field, which read \<^verbatim>\<open>m2\<close> before the call,
  reads as the empty string after it.
\<close>

theorem load_without_saved_entry_counterexample:
  "map_of (all_settings_of unlisted_project_state) (project unlisted_project_state) = None
   \<and> manager unlisted_project_state = PyStr ''m2''
   \<and> manager (snd (handle_project_update flamenco_host unlisted_project_state)) = PyStr []
   \<and> manager (snd (handle_project_update flamenco_host unlisted_project_state)) \<noteq>
       manager unlisted_project_state"
  by code_simp

text \<open>
  C6, amended. The persisted mapping has no entry for the current project, or an empty
  one. Then the handler does not raise, the list of available managers is empty
  afterwards, and the simple properties, the three job fields and the persisted mapping
  are what they were. The manager field is not assigned (the stored item is the one from
  before the call), but read against the emptied list it names no manager afterwards: a
  selection that was empty before is unchanged, a manager that was selected is no longer.
\<close>

theorem load_without_saved_entry:
  assumes "map_of (all_settings_of s) (project s) = None
           \<or> map_of (all_settings_of s) (project s) = Some empty_entry"
  shows "fst (handle_project_update h s) = None
       \<and> available_managers (snd (handle_project_update h s)) = []
       \<and> attrs (snd (handle_project_update h s)) = attrs s
       \<and> manager_item (snd (handle_project_update h s)) = manager_item s
       \<and> \<not> truthy (manager (snd (handle_project_update h s)))
       \<and> \<not> manager_selected (snd (handle_project_update h s))
       \<and> (\<not> truthy (manager s) \<longrightarrow> manager (snd (handle_project_update h s)) = manager s)
       \<and> flamenco_job_file_path (snd (handle_project_update h s)) = flamenco_job_file_path s
       \<and> flamenco_job_output_path (snd (handle_project_update h s)) = flamenco_job_output_path s
       \<and> flamenco_job_output_strip_components (snd (handle_project_update h s)) =
           flamenco_job_output_strip_components s
       \<and> project_settings (snd (handle_project_update h s)) = project_settings s"
proof -
  let ?s0 = "switch_extensions h (s\<lparr>project_settings_loading := True\<rparr>)"
  let ?s' = "snd (handle_project_update h s)"
  from assms have "project_entry_of s (project s) = empty_entry"
    by (auto simp: project_entry_of_def)
  then have "project_entry_of ?s0 (project ?s0) = empty_entry" by simp
  then have "load_settings h ?s0 = (None, set_available_managers [] ?s0)"
    by (rule load_settings_empty)
  then have main: "fst (handle_project_update h s) = None
       \<and> available_managers ?s' = []
       \<and> attrs ?s' = attrs s
       \<and> manager_item ?s' = manager_item s
       \<and> flamenco_job_file_path ?s' = flamenco_job_file_path s
       \<and> flamenco_job_output_path ?s' = flamenco_job_output_path s
       \<and> flamenco_job_output_strip_components ?s' = flamenco_job_output_strip_components s
       \<and> project_settings ?s' = project_settings s"
    by (simp add: handle_project_update_eq set_available_managers_def emit_def)
  then have rd: "manager ?s' = (case manager_item s of None \<Rightarrow> PyNone | Some n \<Rightarrow> PyStr [])"
    by (simp add: manager_def enum_read_no_managers)
  then have f: "\<not> truthy (manager ?s')" by (simp split: option.splits)
  then have ns: "\<not> manager_selected ?s'"
    by (cases "manager ?s'") (simp_all add: manager_selected_def)
  have same: "manager ?s' = manager s" if "\<not> truthy (manager s)"
    using that rd
    by (cases "manager_item s") (auto simp: manager_def enum_read_def split: if_splits)
  from main f ns same show ?thesis by blast
qed

theorem load_without_saved_entry_witness:
  "map_of (all_settings_of unlisted_project_state) (project unlisted_project_state) = None
   \<and> available_managers unlisted_project_state = two_managers
   \<and> manager_selected unlisted_project_state
   \<and> fst (handle_project_update flamenco_host unlisted_project_state) = None
   \<and> available_managers (snd (handle_project_update flamenco_host unlisted_project_state)) = []
   \<and> attrs (snd (handle_project_update flamenco_host unlisted_project_state)) =
       attrs unlisted_project_state
   \<and> manager_item (snd (handle_project_update flamenco_host unlisted_project_state)) = Some 1
   \<and> \<not> manager_selected (snd (handle_project_update flamenco_host unlisted_project_state))
   \<and> project_settings (snd (handle_project_update flamenco_host unlisted_project_state)) =
       project_settings unlisted_project_state"
proof -
  have h: "map_of (all_settings_of unlisted_project_state) (project unlisted_project_state) = None"
    by code_simp
  have v: "manager_item unlisted_project_state = Some 1"
     "available_managers unlisted_project_state = two_managers"
     "manager_selected unlisted_project_state"
    by code_simp+
  from load_without_saved_entry [OF disjI1 [OF h], of flamenco_host] h v
  show ?thesis by simp
qed

text \<open>
  C7 (frame of \<^verbatim>\<open>store\<close>). Whatever \<^verbatim>\<open>store()\<close> does, the entry of every project \<open>q\<close>
  other than the current one reads as before; in the entry of the current project the
  saved settings of every manager \<open>k\<close> other than the selected one read as before, and
  so does every simple key \<open>n\<close> that is not in \<^verbatim>\<open>PROJECT_SPECIFIC_SIMPLE_PROPS\<close>.
\<close>

theorem store_frame:
  assumes "q \<noteq> project s" and "k \<noteq> manager s" and "n \<notin> set PROJECT_SPECIFIC_SIMPLE_PROPS"
  shows "map_of (all_settings_of (snd (store s))) q = map_of (all_settings_of s) q
       \<and> map_of (managers_settings_of (project_entry_of (snd (store s)) (project s))) k =
           map_of (managers_settings_of (project_entry_of s (project s))) k
       \<and> map_of (simple_props (project_entry_of (snd (store s)) (project s))) n =
           map_of (simple_props (project_entry_of s (project s))) n"
proof (cases s rule: store_cases)
  case loading
  then show ?thesis by simp
next
  case raise
  then show ?thesis by simp
next
  case (ok v)
  show ?thesis
    unfolding store_success[OF ok] snd_conv entry_after_store
    using assms
    by (simp add: all_settings_of_def AList.update_conv' stored_entry_def managers_settings_of_def
          PROJECT_SPECIFIC_SIMPLE_PROPS_def)
qed

theorem store_frame_witness:
  "''projB'' \<noteq> project studio_state \<and> PyStr ''m1'' \<noteq> manager studio_state
   \<and> ''other'' \<notin> set PROJECT_SPECIFIC_SIMPLE_PROPS
   \<and> map_of (all_settings_of (snd (store studio_state))) ''projB'' = Some spec_example_entry
   \<and> map_of (managers_settings_of (project_entry_of (snd (store studio_state))
                (project studio_state))) (PyStr ''m1'') = Some m1_settings"
proof -
  have h1: "''projB'' \<noteq> project studio_state" by code_simp
  have h2: "PyStr ''m1'' \<noteq> manager studio_state" by code_simp
  have h3: "''other'' \<notin> set PROJECT_SPECIFIC_SIMPLE_PROPS" by code_simp
  have v: "map_of (all_settings_of studio_state) ''projB'' = Some spec_example_entry"
    "map_of (managers_settings_of (project_entry_of studio_state (project studio_state)))
       (PyStr ''m1'') = Some m1_settings"
    by code_simp+
  from store_frame [OF h1 h2 h3] h1 h2 h3
  show ?thesis unfolding v by blast
qed

text \<open>
  C8 (idempotence). A second \<^verbatim>\<open>store()\<close> right after a first one returns what the first
  returned; in particular the persisted mapping after the second call equals the one
  after the first.
\<close>

theorem store_idempotent:
  "store (snd (store s)) = store s
   \<and> project_settings (snd (store (snd (store s)))) = project_settings (snd (store s))"
proof -
  have "store (snd (store s)) = store s"
  proof (cases s rule: store_cases)
    case loading
    then show ?thesis by simp
  next
    case raise
    then show ?thesis by simp
  next
    case (ok v)
    let ?s1 = "s\<lparr>project_settings :=
                   Some (AList.update (project s) (stored_entry s v) (all_settings_of s))\<rparr>"
    have 1: "store s = (None, ?s1)" by (rule store_success[OF ok])
    have a: "\<not> project_settings_loading ?s1"
      "map_of (attrs ?s1) ''cloud_project_local_path'' = Some v"
      using ok by simp_all
    have "store ?s1 = (None, ?s1)"
      unfolding store_success[OF a] stored_entry_again
      by (simp add: all_settings_of_def)
    then show ?thesis using 1 by simp
  qed
  then show ?thesis by simp
qed

text \<open>
  C9 (order of steps). The trace of one run of the handler, after what was there before:
  the cache of \<^verbatim>\<open>project_extensions\<close> is cleared, \<^verbatim>\<open>attract\<close> and \<^verbatim>\<open>flamenco\<close> are deactivated,
  the extensions of the current project are queried, the features named in the answer are
  activated, and then come the events of restoring the settings (at least one
  assignment, and nothing but assignments to preferences and the warning). Every event
  happened with \<^verbatim>\<open>project_settings_loading\<close> true, and the flag is false at the end.
  What those last events restore is there at the end: the list of available managers is
  the saved one; every simple property that is saved and is an attribute of the
  preferences has its saved value; and when the saved manager id is one of the saved
  managers, the manager field reads as that id and the job fields have the values saved
  for it, if any.
\<close>

theorem handle_project_update_order:
  "(\<exists>rest. events (snd (handle_project_update h s)) =
            events s @ map (\<lambda>e. (e, True))
              ([CacheClear, Deactivate Attract, Deactivate Flamenco, ProjectExtensions (project s)]
               @ activations (fetch_extensions h (project s)) @ rest)
        \<and> rest \<noteq> [] \<and> list_all is_restore_event rest)
   \<and> \<not> project_settings_loading (snd (handle_project_update h s))
   \<and> available_managers (snd (handle_project_update h s)) =
       saved_available_managers (project_entry_of s (project s))
   \<and> (\<forall>name \<in> set PROJECT_SPECIFIC_SIMPLE_PROPS. \<forall>v.
         map_of (simple_props (project_entry_of s (project s))) name = Some v
         \<longrightarrow> name \<in> set (map fst (attrs s))
         \<longrightarrow> map_of (attrs (snd (handle_project_update h s))) name = Some v)
   \<and> (\<forall>i. flamenco_manager_id (project_entry_of s (project s)) = Some (PyStr i)
         \<longrightarrow> i \<noteq> []
         \<longrightarrow> i \<in> set (map fst (saved_available_managers (project_entry_of s (project s))))
         \<longrightarrow> manager (snd (handle_project_update h s)) = PyStr i
           \<and> (\<forall>pppm. map_of (managers_settings_of (project_entry_of s (project s))) (PyStr i) =
                         Some pppm
                \<longrightarrow> flamenco_job_file_path (snd (handle_project_update h s)) = file_path pppm
                  \<and> flamenco_job_output_path (snd (handle_project_update h s)) = output_path pppm
                  \<and> flamenco_job_output_strip_components (snd (handle_project_update h s)) =
                      output_strip_components pppm))"
proof -
  let ?s0 = "switch_extensions h (s\<lparr>project_settings_loading := True\<rparr>)"
  let ?ps = "project_entry_of s (project s)"
  let ?s' = "snd (handle_project_update h s)"
  obtain rest where r: "events (snd (load_settings h ?s0)) =
            events ?s0 @ map (\<lambda>e. (e, project_settings_loading ?s0)) rest"
        "rest \<noteq> []" "list_all is_restore_event rest"
    using load_settings_events[of h ?s0] by blast
  have l: "project_settings_loading ?s0" by simp
  have e0: "events ?s0 = events s @ map (\<lambda>e. (e, True))
              ([CacheClear, Deactivate Attract, Deactivate Flamenco, ProjectExtensions (project s)]
               @ activations (fetch_extensions h (project s)))"
    by (simp add: switch_extensions_eq)
  have "events (snd (load_settings h ?s0)) = events s @ map (\<lambda>e. (e, True))
              ([CacheClear, Deactivate Attract, Deactivate Flamenco, ProjectExtensions (project s)]
               @ activations (fetch_extensions h (project s)) @ rest)"
    unfolding r(1) e0 using l by simp
  then have tr: "\<exists>rest. events ?s' =
            events s @ map (\<lambda>e. (e, True))
              ([CacheClear, Deactivate Attract, Deactivate Flamenco, ProjectExtensions (project s)]
               @ activations (fetch_extensions h (project s)) @ rest)
        \<and> rest \<noteq> [] \<and> list_all is_restore_event rest"
    using r(2,3) by (intro exI[of _ rest]) (simp add: handle_project_update_eq)
  have fl: "\<not> project_settings_loading ?s'" by (simp add: handle_project_update_eq)
  have av: "available_managers ?s' = saved_available_managers ?ps"
    by (rule handle_project_update_available)
  have sp: "map_of (attrs ?s') name = Some v"
    if "name \<in> set PROJECT_SPECIFIC_SIMPLE_PROPS" "map_of (simple_props ?ps) name = Some v"
       "name \<in> set (map fst (attrs s))" for name v
  proof -
    from that(2) have "?ps \<noteq> empty_entry" by (auto simp: empty_entry_def)
    from handle_project_update_attrs[OF this, of h name] that show ?thesis by simp
  qed
  have mg: "manager ?s' = PyStr i
           \<and> (\<forall>pppm. map_of (managers_settings_of ?ps) (PyStr i) = Some pppm
                \<longrightarrow> flamenco_job_file_path ?s' = file_path pppm
                  \<and> flamenco_job_output_path ?s' = output_path pppm
                  \<and> flamenco_job_output_strip_components ?s' = output_strip_components pppm)"
    if "flamenco_manager_id ?ps = Some (PyStr i)" "i \<noteq> []"
       "i \<in> set (map fst (saved_available_managers ?ps))" for i
    using handle_project_update_selected[OF that, of h] by simp
  from tr fl av sp mg show ?thesis by blast
qed

theorem handle_project_update_order_witness:
  "events (snd (handle_project_update flamenco_host studio_state)) =
     map (\<lambda>e. (e, True))
       [CacheClear, Deactivate Attract, Deactivate Flamenco, ProjectExtensions ''projA'',
        Activate Flamenco, PrefWrite ''cloud_project_local_path'',
        PrefWrite ''flamenco_manager.available_managers'', PrefWrite ''flamenco_manager.manager'',
        PrefWrite ''flamenco_job_file_path'', PrefWrite ''flamenco_job_output_path'',
        PrefWrite ''flamenco_job_output_strip_components'']
   \<and> map_of (attrs studio_state) ''cloud_project_local_path'' = Some ''//../''
   \<and> manager studio_state = PyStr ''m2''
   \<and> flamenco_job_file_path studio_state = ''/render/_flamenco/storage''
   \<and> \<not> project_settings_loading (snd (handle_project_update flamenco_host studio_state))
   \<and> available_managers (snd (handle_project_update flamenco_host studio_state)) = two_managers
   \<and> map_of (attrs (snd (handle_project_update flamenco_host studio_state)))
        ''cloud_project_local_path'' = Some ''/projects/a''
   \<and> manager (snd (handle_project_update flamenco_host studio_state)) = PyStr ''m1''
   \<and> flamenco_job_file_path (snd (handle_project_update flamenco_host studio_state)) = ''/a''
   \<and> flamenco_job_output_path (snd (handle_project_update flamenco_host studio_state)) = ''/b''
   \<and> flamenco_job_output_strip_components
        (snd (handle_project_update flamenco_host studio_state)) = 2"
proof -
  let ?ps = "project_entry_of studio_state (project studio_state)"
  have tr: "events (snd (handle_project_update flamenco_host studio_state)) =
     map (\<lambda>e. (e, True))
       [CacheClear, Deactivate Attract, Deactivate Flamenco, ProjectExtensions ''projA'',
        Activate Flamenco, PrefWrite ''cloud_project_local_path'',
        PrefWrite ''flamenco_manager.available_managers'', PrefWrite ''flamenco_manager.manager'',
        PrefWrite ''flamenco_job_file_path'', PrefWrite ''flamenco_job_output_path'',
        PrefWrite ''flamenco_job_output_strip_components'']"
    by code_simp
  have v: "saved_available_managers ?ps = two_managers"
     "map_of (simple_props ?ps) ''cloud_project_local_path'' = Some ''/projects/a''"
     "''cloud_project_local_path'' \<in> set (map fst (attrs studio_state))"
     "flamenco_manager_id ?ps = Some (PyStr ''m1'')"
     "''m1'' \<in> set (map fst two_managers)"
     "map_of (managers_settings_of ?ps) (PyStr ''m1'') = Some m1_settings"
     "map_of (attrs studio_state) ''cloud_project_local_path'' = Some ''//../''"
     "manager studio_state = PyStr ''m2''"
     "flamenco_job_file_path studio_state = ''/render/_flamenco/storage''"
    by code_simp+
  have m: "file_path m1_settings = ''/a''" "output_path m1_settings = ''/b''"
     "output_strip_components m1_settings = 2"
    by (simp_all add: m1_settings_def)
  from handle_project_update_order [of flamenco_host studio_state]
  have "\<not> project_settings_loading (snd (handle_project_update flamenco_host studio_state))
   \<and> available_managers (snd (handle_project_update flamenco_host studio_state)) = two_managers
   \<and> map_of (attrs (snd (handle_project_update flamenco_host studio_state)))
        ''cloud_project_local_path'' = Some ''/projects/a''
   \<and> manager (snd (handle_project_update flamenco_host studio_state)) = PyStr ''m1''
   \<and> flamenco_job_file_path (snd (handle_project_update flamenco_host studio_state)) = ''/a''
   \<and> flamenco_job_output_path (snd (handle_project_update flamenco_host studio_state)) = ''/b''
   \<and> flamenco_job_output_strip_components
        (snd (handle_project_update flamenco_host studio_state)) = 2"
    using v m by (simp add: PROJECT_SPECIFIC_SIMPLE_PROPS_def)
  with tr v(7-9) show ?thesis by blast
qed

text \<open>
  C10 (no manager selected). \<^verbatim>\<open>store()\<close> runs with the flag clear and does not raise,
  and the manager selection is falsy (\<^verbatim>\<open>None\<close> or the empty string). Then the entry of the
  current project has that falsy value under \<^verbatim>\<open>'flamenco_manager_id'\<close>, and its
  \<^verbatim>\<open>'flamenco_managers_settings'\<close> has, under that same falsy key, the current values of
  the three job fields.
\<close>

theorem store_without_manager:
  assumes "\<not> project_settings_loading s" and "fst (store s) = None" and "\<not> truthy (manager s)"
  shows "flamenco_manager_id (project_entry_of (snd (store s)) (project s)) = Some (manager s)
       \<and> (\<exists>ms. flamenco_managers_settings (project_entry_of (snd (store s)) (project s)) = Some ms
              \<and> map_of ms (manager s) =
                  Some \<lparr>file_path = flamenco_job_file_path s,
                        output_path = flamenco_job_output_path s,
                        output_strip_components = flamenco_job_output_strip_components s\<rparr>)"
proof (cases s rule: store_cases)
  case loading
  then show ?thesis using assms by simp
next
  case raise
  then show ?thesis using assms by simp
next
  case (ok v)
  show ?thesis
    unfolding store_success[OF ok] snd_conv entry_after_store
    by (simp add: stored_entry_def AList.update_conv')
qed

theorem store_without_manager_witness:
  "\<not> project_settings_loading fresh_state \<and> fst (store fresh_state) = None
   \<and> \<not> truthy (manager fresh_state)
   \<and> flamenco_manager_id (project_entry_of (snd (store fresh_state)) (project fresh_state)) =
       Some (PyStr [])
   \<and> (\<exists>ms. flamenco_managers_settings
              (project_entry_of (snd (store fresh_state)) (project fresh_state)) = Some ms
          \<and> map_of ms (PyStr []) =
              Some \<lparr>file_path = ''/render/_flamenco/storage'',
                    output_path = ''/render/_flamenco/output'',
                    output_strip_components = 0\<rparr>)"
proof -
  have h1: "\<not> project_settings_loading fresh_state" by code_simp
  have h2: "fst (store fresh_state) = None" by code_simp
  have h3: "\<not> truthy (manager fresh_state)" by code_simp
  have v: "manager fresh_state = PyStr []"
     "flamenco_job_file_path fresh_state = ''/render/_flamenco/storage''"
     "flamenco_job_output_path fresh_state = ''/render/_flamenco/output''"
     "flamenco_job_output_strip_components fresh_state = 0"
    by code_simp+
  from store_without_manager [OF h1 h2 h3] h1 h2 h3
  show ?thesis unfolding v by blast
qed
end
